theory Spec2Isabelle
  imports
    Complex_Main
    "HOL-Library.Char_ord"
    "HOL-Library.List_Lexorder"
    "HOL-Library.Product_Lexorder"
begin

section \<open>Data model (api/app/models.py)\<close>

text \<open>
  The enums of models.py are datatypes, the pydantic models are records. Python's
  unbounded \<open>int\<close> is \<open>int\<close>; \<open>Optional[T]\<close> is \<open>T option\<close>. The float fields
  (credits, total_credits, score) are modelled by exact rationals: no claim below depends
  on rounding. Strings are ASCII strings. Field names follow the source; \<open>section\<close> and
  \<open>term\<close> carry the suffix \<open>_field\<close>, and the fields of \<open>AvailabilityBlock\<close> and
  \<open>ScheduleFilters\<close> that repeat a name of \<open>Meeting\<close> or \<open>Offering\<close> carry a
  prefix.
\<close>

datatype DayOfWeek = MONDAY | TUESDAY | WEDNESDAY | THURSDAY | FRIDAY | SATURDAY | SUNDAY

datatype Status = OPEN | CLOSED | WAITLIST

datatype DeliveryMode = IN_PERSON | ONLINE | HYBRID | ASYNC

record Meeting =
  day :: DayOfWeek
  start_min :: int
  end_min :: int
  location :: "string option"

record Offering =
  crn :: string
  course_key :: string
  section_field :: string
  title :: string
  term_field :: "string option"
  meetings :: "Meeting list"
  status :: Status
  capacity :: "int option"
  enrolled :: "int option"
  instructor :: "string option"
  delivery :: DeliveryMode
  credits :: "rat option"
  info :: "string option"
  comments :: "string option"

record AvailabilityBlock =
  block_day :: DayOfWeek
  block_start_min :: int
  block_end_min :: int

record ScheduleFilters =
  f_status :: "Status list"
  f_delivery :: "DeliveryMode list option"
  campus_include :: "string list option"
  campus_exclude :: "string list option"
  avoid_instructors :: "string list option"
  prefer_instructors :: "string list option"
  earliest_start :: "int option"
  latest_end :: "int option"
  max_gap_min :: "int option"
  include_honors :: bool
  include_non_honors :: bool

record SolveRequest =
  required_course_keys :: "string list"
  optional_course_keys :: "string list option"
  min_credits :: "rat option"
  max_credits :: "rat option"
  unavailable :: "AvailabilityBlock list"
  filters :: ScheduleFilters
  max_results :: nat

record Schedule =
  offerings :: "Offering list"
  total_credits :: rat
  score :: rat

text \<open>\<open>DayOfWeek(str, Enum)\<close>: the value of each member.\<close>

fun day_value :: "DayOfWeek \<Rightarrow> string" where
  "day_value MONDAY = ''Mon''"
| "day_value TUESDAY = ''Tue''"
| "day_value WEDNESDAY = ''Wed''"
| "day_value THURSDAY = ''Thu''"
| "day_value FRIDAY = ''Fri''"
| "day_value SATURDAY = ''Sat''"
| "day_value SUNDAY = ''Sun''"

text \<open>\<open>Meeting.overlaps\<close>.\<close>

definition overlaps :: "Meeting \<Rightarrow> Meeting \<Rightarrow> bool" where
  "overlaps self other =
     (if day self \<noteq> day other then False
      else \<not> (end_min self \<le> start_min other \<or> start_min self \<ge> end_min other))"

text \<open>\<open>Meeting.conflicts_with_unavailable\<close>: the pair (conflicts, overlap_minutes).\<close>

definition conflicts_with_unavailable :: "Meeting \<Rightarrow> int \<Rightarrow> int \<Rightarrow> bool \<times> int" where
  "conflicts_with_unavailable self unavailable_start unavailable_end =
     (if end_min self \<le> unavailable_start \<or> start_min self \<ge> unavailable_end then (False, 0)
      else (let overlap_start = max (start_min self) unavailable_start;
                overlap_end = min (end_min self) unavailable_end
            in (True, overlap_end - overlap_start)))"

text \<open>\<open>Offering.overlaps_with\<close>: the two nested loops, returning at the first overlap.\<close>

definition overlaps_with :: "Offering \<Rightarrow> Offering \<Rightarrow> bool" where
  "overlaps_with self other =
     list_ex (\<lambda>m1. list_ex (\<lambda>m2. overlaps m1 m2) (meetings other)) (meetings self)"

text \<open>\<open>Offering.seats_available\<close>.\<close>

definition seats_available :: "Offering \<Rightarrow> int option" where
  "seats_available self =
     (case capacity self of
        None \<Rightarrow> None
      | Some c \<Rightarrow> (case enrolled self of None \<Rightarrow> None | Some e \<Rightarrow> Some (max 0 (c - e))))"

section \<open>Strings\<close>

text \<open>
  The string operations of Python that the normalizer and the solver use, on ASCII text:
  \<open>str.strip\<close>, \<open>str.upper\<close>, \<open>str.lower\<close>, \<open>str.startswith\<close>, the substring test
  \<open>sub in s\<close>, \<open>str.isdigit\<close> and \<open>int\<close> of a string of decimal digits. Whitespace is
  what \<open>str.isspace\<close> accepts below code point 128.
\<close>

definition is_space :: "char \<Rightarrow> bool" where
  "is_space c =
     (let n = (of_char c :: nat) in n = 32 \<or> (9 \<le> n \<and> n \<le> 13) \<or> (28 \<le> n \<and> n \<le> 31))"

definition is_digit :: "char \<Rightarrow> bool" where
  "is_digit c = (let n = (of_char c :: nat) in 48 \<le> n \<and> n \<le> 57)"

definition is_upper_letter :: "char \<Rightarrow> bool" where
  "is_upper_letter c = (let n = (of_char c :: nat) in 65 \<le> n \<and> n \<le> 90)"

definition upper_char :: "char \<Rightarrow> char" where
  "upper_char c =
     (let n = (of_char c :: nat) in if 97 \<le> n \<and> n \<le> 122 then char_of (n - 32) else c)"

definition lower_char :: "char \<Rightarrow> char" where
  "lower_char c =
     (let n = (of_char c :: nat) in if 65 \<le> n \<and> n \<le> 90 then char_of (n + 32) else c)"

definition upper :: "string \<Rightarrow> string" where
  "upper s = map upper_char s"

definition lower :: "string \<Rightarrow> string" where
  "lower s = map lower_char s"

definition strip :: "string \<Rightarrow> string" where
  "strip s = rev (dropWhile is_space (rev (dropWhile is_space s)))"

fun startswith :: "string \<Rightarrow> string \<Rightarrow> bool" where
  "startswith s [] = True"
| "startswith [] (p # ps) = False"
| "startswith (c # cs) (p # ps) = (c = p \<and> startswith cs ps)"

text \<open>\<open>str_contains sub s\<close> is Python's \<open>sub in s\<close>.\<close>

fun str_contains :: "string \<Rightarrow> string \<Rightarrow> bool" where
  "str_contains sub [] = (sub = [])"
| "str_contains sub (c # cs) = (startswith (c # cs) sub \<or> str_contains sub cs)"

definition isdigit :: "string \<Rightarrow> bool" where
  "isdigit s = (if s = [] then False else list_all is_digit s)"

definition int_of_digits :: "string \<Rightarrow> int" where
  "int_of_digits s = foldl (\<lambda>a c. 10 * a + (int (of_char c) - 48)) 0 s"

text \<open>Truthiness of optional values, as Python's \<open>if x\<close> reads them.\<close>

definition given_list :: "'a list option \<Rightarrow> 'a list" where
  "given_list x = (case x of None \<Rightarrow> [] | Some l \<Rightarrow> l)"

definition truthy_list :: "'a list option \<Rightarrow> bool" where
  "truthy_list x = (case x of None \<Rightarrow> False | Some l \<Rightarrow> (case l of [] \<Rightarrow> False | _ # _ \<Rightarrow> True))"

definition given_str :: "string option \<Rightarrow> string" where
  "given_str x = (case x of None \<Rightarrow> [] | Some s \<Rightarrow> s)"

definition truthy_str :: "string option \<Rightarrow> bool" where
  "truthy_str x = (case x of None \<Rightarrow> False | Some s \<Rightarrow> (case s of [] \<Rightarrow> False | _ # _ \<Rightarrow> True))"

definition is_given :: "'a option \<Rightarrow> bool" where
  "is_given x = (case x of None \<Rightarrow> False | Some v \<Rightarrow> True)"

definition truthy_rat :: "rat option \<Rightarrow> bool" where
  "truthy_rat x = (case x of None \<Rightarrow> False | Some v \<Rightarrow> (if v = 0 then False else True))"

section \<open>Normalizer (api/app/normalizer.py)\<close>

definition DAY_MAP :: "char \<Rightarrow> DayOfWeek option" where
  "DAY_MAP = map_of [(CHR ''M'', MONDAY), (CHR ''T'', TUESDAY), (CHR ''W'', WEDNESDAY),
     (CHR ''R'', THURSDAY), (CHR ''F'', FRIDAY), (CHR ''S'', SATURDAY), (CHR ''U'', SUNDAY)]"

text \<open>\<open>parse_days\<close>: the while loop appends \<open>DAY_MAP[char]\<close> for every character in the map.\<close>

definition parse_days :: "string \<Rightarrow> DayOfWeek list" where
  "parse_days days_str =
     (if days_str = [] \<or> strip days_str = [] \<or> upper days_str = ''TBA'' then []
      else List.map_filter DAY_MAP (upper (strip days_str)))"

text \<open>
  \<open>re.match(r"(\d{1,2}):(\d{2})\s*(AM|PM|am|pm)", s)\<close>: the three groups, or None.
  The match is anchored at the start only. After one or two digits the pattern wants a
  colon, so the greedy choice of the hour's digits is the only one that can succeed.
\<close>

definition match_time :: "string \<Rightarrow> (string \<times> string \<times> string) option" where
  "match_time s =
     (let hh = takeWhile is_digit (take 2 s);
          r1 = drop (length hh) s
      in if hh = [] then None
         else (case r1 of
                 [] \<Rightarrow> None
               | c # r2 \<Rightarrow>
                   if c = CHR '':'' \<and> length (takeWhile is_digit (take 2 r2)) = 2
                   then (let r3 = dropWhile is_space (drop 2 r2);
                             p = take 2 r3
                         in if p = ''AM'' \<or> p = ''PM'' \<or> p = ''am'' \<or> p = ''pm''
                            then Some (hh, take 2 r2, p) else None)
                   else None))"

definition parse_time :: "string \<Rightarrow> int option" where
  "parse_time time_str =
     (if time_str = [] \<or> strip time_str = [] \<or> upper time_str = ''TBA'' then None
      else (case match_time (strip time_str) of
              None \<Rightarrow> None
            | Some (g1, g2, g3) \<Rightarrow>
                (let hour = int_of_digits g1;
                     minute = int_of_digits g2;
                     period = upper g3;
                     hour24 = (if period = ''PM'' \<and> hour \<noteq> 12 then hour + 12
                               else if period = ''AM'' \<and> hour = 12 then 0
                               else hour)
                 in Some (hour24 * 60 + minute))))"

text \<open>
  \<open>re.split(r"\s*-\s*|\s+to\s+", s, maxsplit=1)\<close>: \<open>match_dash\<close> and \<open>match_to\<close> try the
  two alternatives at the head of the string and return what follows the match;
  \<open>split_range\<close> looks for the leftmost position where one of them matches, the first
  alternative first, and returns the list of parts (one part when nothing matches).
\<close>

definition match_dash :: "string \<Rightarrow> string option" where
  "match_dash s =
     (case dropWhile is_space s of
        [] \<Rightarrow> None
      | c # r \<Rightarrow> if c = CHR ''-'' then Some (dropWhile is_space r) else None)"

definition match_to :: "string \<Rightarrow> string option" where
  "match_to s =
     (let r = dropWhile is_space s
      in if length r < length s \<and> startswith r ''to''
            \<and> length (dropWhile is_space (drop 2 r)) < length (drop 2 r)
         then Some (dropWhile is_space (drop 2 r)) else None)"

fun split_range :: "string \<Rightarrow> string \<Rightarrow> string list" where
  "split_range pre s =
     (case match_dash s of
        Some rest \<Rightarrow> [pre, rest]
      | None \<Rightarrow>
          (case match_to s of
             Some rest \<Rightarrow> [pre, rest]
           | None \<Rightarrow> (case s of [] \<Rightarrow> [pre] | c # cs \<Rightarrow> split_range (pre @ [c]) cs)))"

definition parse_times :: "string \<Rightarrow> int option \<times> int option" where
  "parse_times times_str =
     (if times_str = [] \<or> strip times_str = [] \<or> upper times_str = ''TBA'' then (None, None)
      else (case split_range [] (strip times_str) of
              [p0, p1] \<Rightarrow> (parse_time p0, parse_time p1)
            | _ \<Rightarrow> (None, None)))"

text \<open>
  The times that the docstring of \<open>parse_time\<close> speaks of ("H:MM AM/PM", result in
  0-1439): \<open>clock_time\<close> holds of a string on which the pattern of \<open>parse_time\<close>
  matches with an hour group of at most 12 and a minute group of at most 59, and
  \<open>clock_times\<close> holds of a time range that \<open>parse_times\<close> splits into two such
  strings.
\<close>

definition clock_time :: "string \<Rightarrow> bool" where
  "clock_time time_str =
     (case match_time (strip time_str) of
        None \<Rightarrow> False
      | Some (g1, g2, g3) \<Rightarrow> (if int_of_digits g1 \<le> 12 then int_of_digits g2 \<le> 59 else False))"

definition clock_times :: "string \<Rightarrow> bool" where
  "clock_times times_str =
     (case split_range [] (strip times_str) of
        [p0, p1] \<Rightarrow> (if clock_time p0 then clock_time p1 else False)
      | _ \<Rightarrow> False)"

definition normalize_status :: "string \<Rightarrow> Status" where
  "normalize_status status_str =
     (if status_str = [] then OPEN
      else (let s = lower (strip status_str)
            in if str_contains ''closed'' s then CLOSED
               else if str_contains ''wait'' s then WAITLIST
               else OPEN))"

definition normalize_delivery :: "string \<Rightarrow> string \<Rightarrow> DeliveryMode" where
  "normalize_delivery delivery_str loc =
     (if delivery_str = [] then
        (if loc \<noteq> [] \<and> (str_contains ''online'' (lower loc) \<or> str_contains ''web'' (lower loc))
         then ONLINE else IN_PERSON)
      else (let s = lower (strip delivery_str)
            in if str_contains ''online'' s \<or> str_contains ''web'' s \<or> str_contains ''distance'' s
               then ONLINE
               else if str_contains ''hybrid'' s \<or> str_contains ''blended'' s then HYBRID
               else if str_contains ''async'' s \<or> str_contains ''asynchronous'' s then ASYNC
               else if str_contains ''face-to-face'' s \<or> str_contains ''in-person'' s
                       \<or> str_contains ''in person'' s
               then IN_PERSON
               else IN_PERSON))"

text \<open>
  \<open>re.match(r"([A-Z]+)\s*(\d+)([A-Z]*)", s)\<close>: the three character classes are disjoint,
  so only the longest run of letters can be followed by the rest of the pattern.
\<close>

definition match_course :: "string \<Rightarrow> (string \<times> string \<times> string) option" where
  "match_course s =
     (let subject = takeWhile is_upper_letter s;
          r1 = dropWhile is_space (drop (length subject) s);
          catalog_no = takeWhile is_digit r1;
          suffix = takeWhile is_upper_letter (drop (length catalog_no) r1)
      in if subject = [] \<or> catalog_no = [] then None else Some (subject, catalog_no, suffix))"

definition extract_course_key :: "string \<Rightarrow> string" where
  "extract_course_key course_str =
     (if course_str = [] then []
      else (case match_course (upper (strip course_str)) of
              Some (subject, catalog_no, suffix) \<Rightarrow> subject @ '' '' @ catalog_no @ suffix
            | None \<Rightarrow> upper (strip course_str)))"

text \<open>
  An input row. The text columns hold \<open>str(row.get(column, ""))\<close>. The numeric columns
  (Max, Now, Credits) are read through \<open>pd.notna\<close>, \<open>str(...).strip()\<close> and then
  \<open>int\<close> or \<open>float\<close>; a cell is classified by what these do with it: \<open>NA\<close> (missing),
  \<open>Blank\<close> (present, blank text), \<open>Value v\<close> (the conversion returns \<open>v\<close>) or \<open>Invalid\<close>
  (the conversion raises, and the \<open>except\<close> clause makes the whole row None).
\<close>

datatype 'a cell = NA | Blank | Value 'a | Invalid

record Row =
  row_CRN :: string
  row_Course :: string
  row_Title :: string
  row_Section :: string
  row_Term :: string
  row_Days :: string
  row_Times :: string
  row_Location :: string
  row_Status :: string
  row_Max :: "int cell"
  row_Now :: "int cell"
  row_Instructor :: string
  row_Delivery_Mode :: string
  row_Credits :: "rat cell"
  row_Info :: string
  row_Comments :: string

fun convert_cell :: "'a cell \<Rightarrow> 'a option option" where
  "convert_cell NA = Some None"
| "convert_cell Blank = Some None"
| "convert_cell (Value v) = Some (Some v)"
| "convert_cell Invalid = None"

definition str_or_none :: "string \<Rightarrow> string option" where
  "str_or_none s = (if s = [] then None else Some s)"

text \<open>The meetings a row gives: one per parsed day, all with the parsed start and end.\<close>

definition build_meetings :: "Row \<Rightarrow> Meeting list" where
  "build_meetings row =
     (let days = parse_days (strip (row_Days row));
          times = parse_times (strip (row_Times row))
      in (case times of
            (Some s, Some e) \<Rightarrow>
              map (\<lambda>d. \<lparr>day = d, start_min = s, end_min = e,
                         location = str_or_none (strip (row_Location row))\<rparr>) days
          | _ \<Rightarrow> []))"

definition normalize_csv_row :: "Row \<Rightarrow> Offering option" where
  "normalize_csv_row row =
     (let crn_s = strip (row_CRN row) in
      if crn_s = [] then None
      else (let course_key_s = extract_course_key (strip (row_Course row)) in
        if course_key_s = [] then None
        else (case convert_cell (row_Max row) of
                None \<Rightarrow> None
              | Some capacity_v \<Rightarrow>
                 (case convert_cell (row_Now row) of
                    None \<Rightarrow> None
                  | Some enrolled_v \<Rightarrow>
                     (case convert_cell (row_Credits row) of
                        None \<Rightarrow> None
                      | Some credits_v \<Rightarrow>
                          Some \<lparr>crn = crn_s,
                                course_key = course_key_s,
                                section_field = strip (row_Section row),
                                title = strip (row_Title row),
                                term_field = str_or_none (strip (row_Term row)),
                                meetings = build_meetings row,
                                status = normalize_status (row_Status row),
                                capacity = capacity_v,
                                enrolled = enrolled_v,
                                instructor = str_or_none (strip (row_Instructor row)),
                                delivery = normalize_delivery (row_Delivery_Mode row) (row_Location row),
                                credits = credits_v,
                                info = str_or_none (strip (row_Info row)),
                                comments = str_or_none (strip (row_Comments row))\<rparr>)))))"

text \<open>\<open>normalize_csv\<close> on the rows of a file that was read.\<close>

definition normalize_csv :: "Row list \<Rightarrow> Offering list" where
  "normalize_csv rows = List.map_filter normalize_csv_row rows"

text \<open>
  \<open>deduplicate_offerings\<close>: the signature sorts the meetings by \<open>(day.value, start_min)\<close>,
  the day's value being its three-letter string; \<open>seen\<close> is the set of signatures.
\<close>

definition meeting_sig :: "Offering \<Rightarrow> (DayOfWeek \<times> int \<times> int) list" where
  "meeting_sig offering =
     map (\<lambda>m. (day m, start_min m, end_min m))
       (sort_key (\<lambda>x. (day_value (day x), start_min x)) (meetings offering))"

fun dedup_loop ::
  "(string \<times> (DayOfWeek \<times> int \<times> int) list) set \<Rightarrow> Offering list \<Rightarrow> Offering list \<Rightarrow> Offering list"
where
  "dedup_loop seen unique [] = unique"
| "dedup_loop seen unique (offering # rest) =
     (let sig = (crn offering, meeting_sig offering)
      in if sig \<in> seen then dedup_loop seen unique rest
         else dedup_loop (insert sig seen) (unique @ [offering]) rest)"

definition deduplicate_offerings :: "Offering list \<Rightarrow> Offering list" where
  "deduplicate_offerings offerings_in = dedup_loop {} [] offerings_in"

text \<open>
  \<open>merge_offerings_by_crn\<close>: \<open>crn_map\<close> is an insertion-ordered dictionary, here a list of
  pairs with distinct keys. \<open>add_meetings\<close> is the inner loop, which appends to
  \<open>existing.meetings\<close> each meeting whose (day, start_min, end_min) is not there yet.
\<close>

fun add_meetings :: "Meeting list \<Rightarrow> Meeting list \<Rightarrow> Meeting list" where
  "add_meetings existing [] = existing"
| "add_meetings existing (meeting # rest) =
     (if list_ex (\<lambda>m. day m = day meeting \<and> start_min m = start_min meeting
                        \<and> end_min m = end_min meeting) existing
      then add_meetings existing rest
      else add_meetings (existing @ [meeting]) rest)"

fun merge_loop :: "(string \<times> Offering) list \<Rightarrow> Offering list \<Rightarrow> (string \<times> Offering) list" where
  "merge_loop crn_map [] = crn_map"
| "merge_loop crn_map (offering # rest) =
     (case map_of crn_map (crn offering) of
        None \<Rightarrow> merge_loop (crn_map @ [(crn offering, offering)]) rest
      | Some existing \<Rightarrow>
          merge_loop
            (map (\<lambda>(k, v). if k = crn offering
                           then (k, v\<lparr>meetings := add_meetings (meetings v) (meetings offering)\<rparr>)
                           else (k, v)) crn_map)
            rest)"

definition merge_offerings_by_crn :: "Offering list \<Rightarrow> Offering list" where
  "merge_offerings_by_crn offerings_in = map snd (merge_loop [] offerings_in)"

text \<open>\<open>normalize_multiple_csvs\<close> on the rows of the files.\<close>

definition normalize_multiple_csvs :: "Row list list \<Rightarrow> Offering list" where
  "normalize_multiple_csvs files =
     deduplicate_offerings (merge_offerings_by_crn (concat (map normalize_csv files)))"

section \<open>Solver (api/app/solver.py)\<close>

text \<open>
  The solver object. \<open>offerings_by_course\<close> and \<open>unavailable_by_day\<close> are
  \<open>defaultdict(list)\<close>s, here total functions whose default is the empty list;
  \<open>seen_signatures\<close> is a set of frozensets of CRNs. The search mutates \<open>results\<close> and
  \<open>seen_signatures\<close>; the functions below take the solver and return it updated.
\<close>

record ScheduleSolver =
  catalog :: "Offering list"
  request :: SolveRequest
  results :: "Schedule list"
  seen_signatures :: "string set set"
  offerings_by_course :: "string \<Rightarrow> Offering list"
  unavailable_by_day :: "DayOfWeek \<Rightarrow> (int \<times> int) list"

definition is_honors :: "Offering \<Rightarrow> bool" where
  "is_honors self = startswith (upper (section_field self)) ''H''"

text \<open>
  The body of the loop of \<open>_prefilter_offerings\<close>: False where the source says
  \<open>continue\<close>, True where it appends the offering to \<open>filtered\<close>.
\<close>

definition campus_match :: "string list \<Rightarrow> Meeting \<Rightarrow> bool" where
  "campus_match campuses meeting =
     (if truthy_str (location meeting)
      then list_ex (\<lambda>campus. str_contains (lower campus) (lower (given_str (location meeting))))
             campuses
      else False)"

definition valid_time :: "ScheduleFilters \<Rightarrow> Meeting list \<Rightarrow> bool" where
  "valid_time fl ms =
     list_all (\<lambda>meeting.
        (case earliest_start fl of None \<Rightarrow> True | Some e \<Rightarrow> \<not> start_min meeting < e) \<and>
        (case latest_end fl of None \<Rightarrow> True | Some l \<Rightarrow> \<not> end_min meeting > l)) ms"

definition keep_offering :: "ScheduleFilters \<Rightarrow> Offering \<Rightarrow> bool" where
  "keep_offering fl offering =
     (if \<not> List.member (f_status fl) (status offering) then False
      else if truthy_list (f_delivery fl)
              \<and> \<not> List.member (given_list (f_delivery fl)) (delivery offering) then False
      else if truthy_list (avoid_instructors fl) \<and> truthy_str (instructor offering)
              \<and> list_ex (\<lambda>avoid. str_contains (lower avoid)
                                    (lower (given_str (instructor offering))))
                   (given_list (avoid_instructors fl)) then False
      else if truthy_list (campus_exclude fl) \<and> meetings offering \<noteq> []
              \<and> list_ex (campus_match (given_list (campus_exclude fl))) (meetings offering)
           then False
      else if truthy_list (campus_include fl) \<and> meetings offering \<noteq> []
              \<and> \<not> list_ex (campus_match (given_list (campus_include fl))) (meetings offering)
           then False
      else if (is_given (earliest_start fl) \<or> is_given (latest_end fl))
              \<and> \<not> valid_time fl (meetings offering) then False
      else if is_honors offering \<and> \<not> include_honors fl then False
      else if \<not> is_honors offering \<and> \<not> include_non_honors fl then False
      else True)"

definition prefilter_offerings ::
  "ScheduleFilters \<Rightarrow> (string \<Rightarrow> Offering list) \<Rightarrow> (string \<Rightarrow> Offering list)" where
  "prefilter_offerings fl by_course = (\<lambda>ck. filter (keep_offering fl) (by_course ck))"

text \<open>\<open>ScheduleSolver.__init__\<close>.\<close>

definition group_by_course :: "Offering list \<Rightarrow> (string \<Rightarrow> Offering list)" where
  "group_by_course offerings_in =
     fold (\<lambda>offering m. m(course_key offering := m (course_key offering) @ [offering]))
       offerings_in (\<lambda>ck. [])"

definition group_unavailable :: "AvailabilityBlock list \<Rightarrow> (DayOfWeek \<Rightarrow> (int \<times> int) list)" where
  "group_unavailable blocks =
     fold (\<lambda>block m. m(block_day block :=
                          m (block_day block) @ [(block_start_min block, block_end_min block)]))
       blocks (\<lambda>d. [])"

definition init_solver :: "Offering list \<Rightarrow> SolveRequest \<Rightarrow> ScheduleSolver" where
  "init_solver catalog_in request_in =
     \<lparr>catalog = catalog_in,
      request = request_in,
      results = [],
      seen_signatures = {},
      offerings_by_course = prefilter_offerings (filters request_in) (group_by_course catalog_in),
      unavailable_by_day = group_unavailable (unavailable request_in)\<rparr>"

definition has_conflict :: "Offering \<Rightarrow> Offering list \<Rightarrow> bool" where
  "has_conflict offering schedule = list_ex (\<lambda>existing. overlaps_with offering existing) schedule"

definition conflicts_with_availability :: "ScheduleSolver \<Rightarrow> Offering \<Rightarrow> bool" where
  "conflicts_with_availability self offering =
     list_ex (\<lambda>meeting.
        list_ex (\<lambda>(unavail_start, unavail_end).
                   fst (conflicts_with_unavailable meeting unavail_start unavail_end))
          (unavailable_by_day self (day meeting)))
       (meetings offering)"

text \<open>
  \<open>_compute_total_gaps\<close>. \<open>day_gaps\<close> is the inner loop over the consecutive pairs of
  the sorted (start, end) tuples of one day, adding to \<open>total_gap\<close>. The days are visited
  in the order of their first meeting, as the dictionary's keys are.
\<close>

fun day_gaps :: "int option \<Rightarrow> (int \<times> int) list \<Rightarrow> int \<Rightarrow> int" where
  "day_gaps max_gap (a # b # rest) total_gap =
     (let gap = fst b - snd a
      in day_gaps max_gap (b # rest)
           (if gap > 0
            then (if (case max_gap of None \<Rightarrow> False | Some g \<Rightarrow> (if g = 0 then False else gap > g))
                  then total_gap + gap * 10
                  else total_gap + gap)
            else total_gap))"
| "day_gaps max_gap [a] total_gap = total_gap"
| "day_gaps max_gap [] total_gap = total_gap"

definition compute_total_gaps :: "SolveRequest \<Rightarrow> Offering list \<Rightarrow> int" where
  "compute_total_gaps req schedule =
     (let all_meetings = concat (map meetings schedule);
          meetings_by_day =
            fold (\<lambda>meeting m. m(day meeting :=
                                  m (day meeting) @ [(start_min meeting, end_min meeting)]))
              all_meetings (\<lambda>d. []);
          days = rev (remdups (rev (map day all_meetings)));
          max_gap = max_gap_min (filters req)
      in fold (\<lambda>d total_gap.
                 if length (meetings_by_day d) \<le> 1 then total_gap
                 else day_gaps max_gap (sort (meetings_by_day d)) total_gap)
           days 0)"

text \<open>
  \<open>_compute_score\<close>. Python's built-in \<open>hash\<close> of a string is salted anew in every
  interpreter process (PYTHONHASHSEED), so it is the parameter \<open>py_hash\<close>: the hash
  function of the process the solver runs in.
\<close>

definition crn_val :: "(string \<Rightarrow> int) \<Rightarrow> string \<Rightarrow> int" where
  "crn_val py_hash c = (if isdigit c then int_of_digits c else py_hash c)"

definition compute_score :: "(string \<Rightarrow> int) \<Rightarrow> SolveRequest \<Rightarrow> Offering list \<Rightarrow> rat" where
  "compute_score py_hash req schedule =
     (let total_gap_minutes = compute_total_gaps req schedule;
          score0 = of_int total_gap_minutes * 1000;
          prefer = given_list (prefer_instructors (filters req));
          instructor_bonus =
            length (filter (\<lambda>offering.
                      truthy_str (instructor offering) \<and> prefer \<noteq> [] \<and>
                      list_ex (\<lambda>pref. str_contains (lower pref)
                                         (lower (given_str (instructor offering)))) prefer)
                    schedule);
          score1 = score0 - of_nat instructor_bonus * 100;
          total_seats =
            sum_list (map (\<lambda>offering. case seats_available offering of
                                          None \<Rightarrow> 0 | Some n \<Rightarrow> n) schedule);
          score2 = score1 - of_int total_seats * 1;
          crn_sum = sum_list (map (\<lambda>offering. crn_val py_hash (crn offering)) schedule)
      in score2 + of_int (crn_sum mod 1000) * (1 / 1000))"

text \<open>
  The base case of \<open>_backtrack\<close> (all courses scheduled). Both branches of the
  early-termination test return, so the test has no effect on the value.
\<close>

definition leaf :: "(string \<Rightarrow> int) \<Rightarrow> ScheduleSolver \<Rightarrow> Offering list \<Rightarrow> ScheduleSolver" where
  "leaf py_hash self current_schedule =
     (let total = sum_list (List.map_filter credits current_schedule) in
      if truthy_rat (min_credits (request self))
         \<and> total < (case min_credits (request self) of None \<Rightarrow> 0 | Some v \<Rightarrow> v) then self
      else if truthy_rat (max_credits (request self))
         \<and> total > (case max_credits (request self) of None \<Rightarrow> 0 | Some v \<Rightarrow> v) then self
      else (let sig = set (map crn current_schedule) in
            if sig \<in> seen_signatures self then self
            else (let self1 = self\<lparr>seen_signatures := insert sig (seen_signatures self)\<rparr>;
                      schedule = \<lparr>offerings = current_schedule,
                                  total_credits = total,
                                  score = compute_score py_hash (request self1) current_schedule\<rparr>;
                      self2 = self1\<lparr>results := results self1 @ [schedule]\<rparr>
                  in if length (results self2) \<ge> max_results (request self2) * 2 then self2
                     else self2)))"

text \<open>
  \<open>_backtrack\<close>. The \<open>for\<close> loop over the candidates of the current course is a fold
  that threads the solver; \<open>current_schedule.append\<close> before the recursive call and
  \<open>pop\<close> after it leave the list as it was, so the recursive call gets
  \<open>current_schedule @ [offering]\<close>.
\<close>

function backtrack ::
  "(string \<Rightarrow> int) \<Rightarrow> ScheduleSolver \<Rightarrow> string list \<Rightarrow> nat \<Rightarrow> Offering list \<Rightarrow> ScheduleSolver"
where
  "backtrack py_hash self course_keys course_idx current_schedule =
     (if course_idx \<ge> length course_keys then leaf py_hash self current_schedule
      else fold (\<lambda>offering s.
                   if has_conflict offering current_schedule then s
                   else if conflicts_with_availability s offering then s
                   else backtrack py_hash s course_keys (course_idx + 1)
                          (current_schedule @ [offering]))
             (offerings_by_course self (course_keys ! course_idx)) self)"
  by pat_completeness auto
termination
  by (relation "measure (\<lambda>(py_hash, self, course_keys, course_idx, current_schedule).
                            length course_keys - course_idx)") auto

text \<open>\<open>ScheduleSolver.solve\<close> and the entry point \<open>solve_schedules\<close>.\<close>

definition solve :: "(string \<Rightarrow> int) \<Rightarrow> ScheduleSolver \<Rightarrow> Schedule list" where
  "solve py_hash self =
     (let required_courses =
            sort_key (\<lambda>ck. length (offerings_by_course self ck))
              (required_course_keys (request self))
      in if list_ex (\<lambda>ck. offerings_by_course self ck = []) required_courses then []
         else (let self1 = backtrack py_hash self required_courses 0 []
               in take (max_results (request self1)) (sort_key score (results self1))))"

definition solve_schedules ::
  "(string \<Rightarrow> int) \<Rightarrow> Offering list \<Rightarrow> SolveRequest \<Rightarrow> Schedule list" where
  "solve_schedules py_hash catalog_in request_in = solve py_hash (init_solver catalog_in request_in)"

section \<open>Example inputs\<close>

text \<open>
  \<open>default_filters\<close> is \<open>ScheduleFilters()\<close> and \<open>example_request keys\<close> is
  \<open>SolveRequest(required_course_keys=keys)\<close>, with the defaults of models.py. The
  example offerings are open, in-person sections of 3 credits, as in tests/test_solver.py.
\<close>

definition default_filters :: ScheduleFilters where
  "default_filters =
     \<lparr>f_status = [OPEN], f_delivery = None, campus_include = None, campus_exclude = None,
      avoid_instructors = None, prefer_instructors = None, earliest_start = None,
      latest_end = None, max_gap_min = None, include_honors = True, include_non_honors = True\<rparr>"

definition example_request :: "string list \<Rightarrow> SolveRequest" where
  "example_request keys =
     \<lparr>required_course_keys = keys, optional_course_keys = None, min_credits = None,
      max_credits = None, unavailable = [], filters = default_filters, max_results = 500\<rparr>"

definition example_meeting :: "DayOfWeek \<Rightarrow> int \<Rightarrow> int \<Rightarrow> Meeting" where
  "example_meeting d s e = \<lparr>day = d, start_min = s, end_min = e, location = None\<rparr>"

definition example_offering :: "string \<Rightarrow> string \<Rightarrow> Meeting list \<Rightarrow> Offering" where
  "example_offering crn_in key ms =
     \<lparr>crn = crn_in, course_key = key, section_field = ''001'', title = ''Intro to CS'',
      term_field = None, meetings = ms, status = OPEN, capacity = None, enrolled = None,
      instructor = None, delivery = IN_PERSON, credits = Some 3, info = None, comments = None\<rparr>"

definition c2_catalog :: "Offering list" where
  "c2_catalog = [example_offering ''11001'' ''CS 100'' [example_meeting MONDAY 600 680]]"

definition c2_request :: SolveRequest where
  "c2_request = (example_request [''CS 100''])\<lparr>max_credits := Some 0\<rparr>"

definition c3_catalog :: "Offering list" where
  "c3_catalog = [example_offering ''11001'' ''CS 100'' [example_meeting MONDAY 600 680],
                 example_offering ''11002'' ''CS 100'' [example_meeting TUESDAY 600 680],
                 example_offering ''11003'' ''CS 100'' [example_meeting WEDNESDAY 600 680]]"

definition c3_request :: SolveRequest where
  "c3_request = (example_request [''CS 100''])\<lparr>max_results := 1\<rparr>"

definition c6_request :: SolveRequest where
  "c6_request =
     (example_request [''CS 100'', ''MATH 111''])
       \<lparr>filters := default_filters\<lparr>max_gap_min := Some 0\<rparr>\<rparr>"

definition c6_schedule :: "Offering list" where
  "c6_schedule = [example_offering ''11001'' ''CS 100'' [example_meeting MONDAY 540 590],
                  example_offering ''12001'' ''MATH 111'' [example_meeting MONDAY 600 650]]"

text \<open>
  Two sections with non-numeric CRNs, and the hash functions of two interpreter
  processes that order the two strings differently.
\<close>

definition c7_catalog :: "Offering list" where
  "c7_catalog = [example_offering ''A'' ''CS 100'' [example_meeting MONDAY 600 680],
                 example_offering ''B'' ''CS 100'' [example_meeting MONDAY 600 680]]"

definition hash_one :: "string \<Rightarrow> int" where
  "hash_one s = (if s = ''A'' then 1 else 2)"

definition hash_two :: "string \<Rightarrow> int" where
  "hash_two s = (if s = ''A'' then 2 else 1)"

text \<open>Inputs for the campus filters: a section without meetings, and one in Newark.\<close>

definition c4_offering :: Offering where
  "c4_offering = example_offering ''11001'' ''CS 100'' []"

definition c4_request :: SolveRequest where
  "c4_request =
     (example_request [''CS 100''])
       \<lparr>filters := default_filters\<lparr>campus_include := Some [''Newark'']\<rparr>\<rparr>"

definition c4_located :: Offering where
  "c4_located =
     example_offering ''11002'' ''CS 100''
       [(example_meeting MONDAY 600 680)\<lparr>location := Some ''NEWARK Campus CKB 217''\<rparr>]"

definition c4_by_course :: "string \<Rightarrow> Offering list" where
  "c4_by_course = group_by_course [c4_offering, c4_located]"

text \<open>Input rows, after tests/test_normalizer.py; \<open>c5_row\<close> lists the later time first.\<close>

definition example_row :: "string \<Rightarrow> string \<Rightarrow> string \<Rightarrow> Row" where
  "example_row crn_in days_in times_in =
     \<lparr>row_CRN = crn_in, row_Course = ''CS100'', row_Title = ''ROADMAP TO COMPUTING'',
      row_Section = ''002'', row_Term = ''202610'', row_Days = days_in, row_Times = times_in,
      row_Location = ''CKB 217'', row_Status = ''Open'', row_Max = Value 80, row_Now = Value 0,
      row_Instructor = ''Spirollari, Junilda'', row_Delivery_Mode = ''Face-to-Face'',
      row_Credits = Value 3, row_Info = '''', row_Comments = ''''\<rparr>"

definition c5_row :: Row where
  "c5_row = example_row ''11757'' ''M'' ''10:00 AM - 9:00 AM''"

definition basic_row :: Row where
  "basic_row = example_row ''11757'' ''MW'' ''11:30 AM - 12:50 PM''"

definition basic_offering :: Offering where
  "basic_offering =
     \<lparr>crn = ''11757'', course_key = ''CS 100'', section_field = ''002'',
      title = ''ROADMAP TO COMPUTING'', term_field = Some ''202610'',
      meetings = [\<lparr>day = MONDAY, start_min = 690, end_min = 770, location = Some ''CKB 217''\<rparr>,
                  \<lparr>day = WEDNESDAY, start_min = 690, end_min = 770, location = Some ''CKB 217''\<rparr>],
      status = OPEN, capacity = Some 80, enrolled = Some 0,
      instructor = Some ''Spirollari, Junilda'', delivery = IN_PERSON, credits = Some 3,
      info = None, comments = None\<rparr>"

text \<open>The two rows of scenario F: the same CRN, Tuesday in the first row and Thursday in the second.\<close>

definition scenario_f_first :: Row where
  "scenario_f_first = example_row ''11757'' ''T'' ''9:00 AM - 9:50 AM''"

definition scenario_f_second :: Row where
  "scenario_f_second =
     (example_row ''11757'' ''R'' ''9:00 AM - 9:50 AM'')
       \<lparr>row_Title := ''SECOND ROW'', row_Location := ''GITC 1100''\<rparr>"

definition scenario_f_tuesday :: Meeting where
  "scenario_f_tuesday =
     \<lparr>day = TUESDAY, start_min = 540, end_min = 590, location = Some ''CKB 217''\<rparr>"

definition scenario_f_thursday :: Meeting where
  "scenario_f_thursday =
     \<lparr>day = THURSDAY, start_min = 540, end_min = 590, location = Some ''GITC 1100''\<rparr>"

text \<open>
  The invariant of the search: \<open>conflict_free schedule\<close> says that \<open>_has_conflict\<close> is
  false for every offering of the list against the offerings before it. The example
  catalog has one section per course, both on Monday.
\<close>

definition conflict_free :: "Offering list \<Rightarrow> bool" where
  "conflict_free schedule =
     list_all (\<lambda>j. \<not> has_conflict (schedule ! j) (take j schedule)) [0..<length schedule]"

definition c1_catalog :: "Offering list" where
  "c1_catalog = [example_offering ''11001'' ''CS 100'' [example_meeting MONDAY 600 680],
                 example_offering ''12001'' ''MATH 111'' [example_meeting MONDAY 540 590]]"

definition c1_schedule :: Schedule where
  "c1_schedule = \<lparr>offerings = c1_catalog, total_credits = 6, score = 5000001 / 500\<rparr>"

section \<open>Meeting overlap\<close>

text \<open>
  Claim C10. Meeting overlap is symmetric: for every pair of meetings m1 and m2,
  m1.overlaps(m2) equals m2.overlaps(m1).
\<close>

theorem overlaps_symmetric: "overlaps m1 m2 = overlaps m2 m1"
  unfolding overlaps_def by auto

section \<open>Credit window\<close>

text \<open>
  Claim C2. Every returned schedule has total_credits >= min_credits when min_credits is
  set and total_credits <= max_credits when max_credits is set, for every value of the
  set field, 0 included. The base case of \<open>_backtrack\<close> tests the bound's truthiness
  (\<open>if self.request.max_credits and ...\<close>), so a bound of 0 is not checked: with
  max_credits = 0 the one section of 3 credits is returned as a schedule of 3 credits.
\<close>

theorem credit_window_skipped_at_zero:
  "max_credits c2_request = Some 0 \<and>
   map total_credits (solve_schedules py_hash c2_catalog c2_request) = [3]"
  by code_simp

section \<open>Early termination\<close>

text \<open>
  Claim C3. Once the result buffer holds 2 * max_results schedules the search stops and
  the buffer never grows beyond that. The test after \<open>self.results.append\<close> returns
  from the base case only, which returns anyway; the loops of the callers go on. With
  max_results = 1 and three sections of the one required course, the call
  \<open>_backtrack(required_courses, 0, [])\<close> that \<open>solve\<close> makes leaves 3 schedules in
  the buffer, more than 2 * 1.
\<close>

theorem result_buffer_exceeds_bound:
  "max_results c3_request * 2 = 2 \<and>
   sort_key (\<lambda>ck. length (offerings_by_course (init_solver c3_catalog c3_request) ck))
     (required_course_keys (request (init_solver c3_catalog c3_request))) = [''CS 100''] \<and>
   length (results (backtrack py_hash (init_solver c3_catalog c3_request) [''CS 100''] 0 [])) = 3"
  by code_simp

section \<open>Gap term\<close>

text \<open>
  Claim C6. A gap that strictly exceeds a set max_gap_min counts 10 times, for every set
  value, 0 included. \<open>_compute_total_gaps\<close> tests \<open>if max_gap and gap > max_gap\<close>, so
  with max_gap_min = 0 no gap is penalised: two Monday meetings 540-590 and 600-650 give
  a gap term of 10, not 100.
\<close>

theorem gap_penalty_skipped_at_zero:
  "max_gap_min (filters c6_request) = Some 0 \<and> compute_total_gaps c6_request c6_schedule = 10"
  by code_simp

section \<open>Determinism\<close>

text \<open>
  Claim C7. Two invocations with equal catalog and request return equal lists, the
  tie-break using a stable hash for a non-numeric CRN. \<open>_compute_score\<close> calls Python's
  built-in \<open>hash\<close>, which differs from one interpreter process to the next: for the same
  catalog and request, two processes return the two schedules in opposite orders.
\<close>

theorem tie_break_depends_on_process_hash:
  "map (\<lambda>s. map crn (offerings s))
     (solve_schedules hash_one c7_catalog (example_request [''CS 100''])) = [[''A''], [''B'']] \<and>
   map (\<lambda>s. map crn (offerings s))
     (solve_schedules hash_two c7_catalog (example_request [''CS 100''])) = [[''B''], [''A'']]"
  by code_simp

section \<open>Campus filters\<close>

text \<open>
  An offering without meetings passes the campus filters: the tests
  \<open>if filters.campus_include and offering.meetings\<close> (and the same for
  \<open>campus_exclude\<close>) skip it. With campus_include = ["Newark"], the section without
  meetings stays a candidate of its course.
\<close>

theorem campus_include_keeps_unscheduled:
  "campus_include (filters c4_request) = Some [''Newark''] \<and>
   meetings c4_offering = [] \<and>
   offerings_by_course (init_solver [c4_offering] c4_request) ''CS 100'' = [c4_offering]"
  by code_simp

lemma keep_offering_include:
  assumes "keep_offering fl offering" "truthy_list (campus_include fl)" "meetings offering \<noteq> []"
  shows "list_ex (campus_match (given_list (campus_include fl))) (meetings offering)"
  using assms unfolding keep_offering_def by (auto split: if_splits)

lemma keep_offering_no_meetings:
  assumes "meetings offering = []"
  shows "keep_offering fl offering =
         keep_offering (fl\<lparr>campus_include := None, campus_exclude := None\<rparr>) offering"
  using assms unfolding keep_offering_def valid_time_def truthy_list_def by simp

lemma campus_match_located:
  assumes "campus_match campuses meeting"
  shows "\<exists>campus\<in>set campuses.
           location meeting \<noteq> None \<and> location meeting \<noteq> Some [] \<and>
           str_contains (lower campus) (lower (given_str (location meeting)))"
proof -
  from assms have t: "truthy_str (location meeting)"
    unfolding campus_match_def by (simp split: if_splits)
  then have l: "location meeting \<noteq> None \<and> location meeting \<noteq> Some []"
    unfolding truthy_str_def by (auto split: option.splits list.splits)
  from assms t have "list_ex (\<lambda>campus. str_contains (lower campus)
      (lower (given_str (location meeting)))) campuses"
    unfolding campus_match_def by simp
  with l show ?thesis unfolding list_ex_iff by blast
qed

text \<open>
  Claim C4, as the code has it. When campus_include is a non-empty list, an offering
  with at least one meeting is a candidate only if some meeting has a non-empty location
  that contains, case-insensitively, one of the included substrings; an offering without
  meetings is a candidate exactly when it is one with both campus filters removed.
\<close>

theorem campus_filters_by_design:
  "(campus_include fl = Some campuses \<and> campuses \<noteq> [] \<and> meetings offering \<noteq> [] \<and>
    offering \<in> set (prefilter_offerings fl by_course ck)
    \<longrightarrow> list_ex (\<lambda>meeting.
          list_ex (\<lambda>campus.
             location meeting \<noteq> None \<and> location meeting \<noteq> Some [] \<and>
             str_contains (lower campus) (lower (given_str (location meeting)))) campuses)
          (meetings offering)) \<and>
   (meetings offering = []
    \<longrightarrow> (offering \<in> set (prefilter_offerings fl by_course ck)) =
        (offering \<in> set (prefilter_offerings (fl\<lparr>campus_include := None, campus_exclude := None\<rparr>)
                          by_course ck)))"
proof (intro conjI impI)
  assume a: "campus_include fl = Some campuses \<and> campuses \<noteq> [] \<and> meetings offering \<noteq> [] \<and>
    offering \<in> set (prefilter_offerings fl by_course ck)"
  then have k: "keep_offering fl offering"
    by (simp add: prefilter_offerings_def)
  from a have t: "truthy_list (campus_include fl)"
    by (cases campuses) (simp_all add: truthy_list_def)
  from a have g: "given_list (campus_include fl) = campuses"
    by (simp add: given_list_def)
  from keep_offering_include [OF k t] a g
  have "list_ex (campus_match campuses) (meetings offering)" by simp
  then show "list_ex (\<lambda>meeting.
          list_ex (\<lambda>campus.
             location meeting \<noteq> None \<and> location meeting \<noteq> Some [] \<and>
             str_contains (lower campus) (lower (given_str (location meeting)))) campuses)
          (meetings offering)"
    unfolding list_ex_iff using campus_match_located by blast
next
  assume "meetings offering = []"
  then show "(offering \<in> set (prefilter_offerings fl by_course ck)) =
        (offering \<in> set (prefilter_offerings (fl\<lparr>campus_include := None, campus_exclude := None\<rparr>)
                          by_course ck))"
    using keep_offering_no_meetings [of offering fl] by (simp add: prefilter_offerings_def)
qed

theorem campus_filters_by_design_witness:
  "campus_include (filters c4_request) = Some [''Newark''] \<and>
   meetings c4_located \<noteq> [] \<and>
   c4_located \<in> set (prefilter_offerings (filters c4_request) c4_by_course ''CS 100'') \<and>
   list_ex (\<lambda>meeting.
      list_ex (\<lambda>campus.
         location meeting \<noteq> None \<and> location meeting \<noteq> Some [] \<and>
         str_contains (lower campus) (lower (given_str (location meeting)))) [''Newark''])
      (meetings c4_located) \<and>
   meetings c4_offering = [] \<and>
   c4_offering \<in> set (prefilter_offerings (filters c4_request) c4_by_course ''CS 100'') \<and>
   c4_offering \<in> set (prefilter_offerings
       ((filters c4_request)\<lparr>campus_include := None, campus_exclude := None\<rparr>) c4_by_course ''CS 100'')"
proof -
  have h1: "campus_include (filters c4_request) = Some [''Newark'']" by code_simp
  have h2: "meetings c4_located \<noteq> []" by code_simp
  have h3: "c4_located \<in> set (prefilter_offerings (filters c4_request) c4_by_course ''CS 100'')"
    by code_simp
  have h4: "meetings c4_offering = []" by code_simp
  have h5: "c4_offering \<in> set (prefilter_offerings (filters c4_request) c4_by_course ''CS 100'')"
    by code_simp
  from campus_filters_by_design [of "filters c4_request" "[''Newark'']" c4_located c4_by_course "''CS 100''"]
    h1 h2 h3
  have c1: "list_ex (\<lambda>meeting.
      list_ex (\<lambda>campus.
         location meeting \<noteq> None \<and> location meeting \<noteq> Some [] \<and>
         str_contains (lower campus) (lower (given_str (location meeting)))) [''Newark''])
      (meetings c4_located)" by blast
  from campus_filters_by_design [of "filters c4_request" "[''Newark'']" c4_offering c4_by_course "''CS 100''"]
    h4 h5
  have c2: "c4_offering \<in> set (prefilter_offerings
       ((filters c4_request)\<lparr>campus_include := None, campus_exclude := None\<rparr>) c4_by_course ''CS 100'')"
    by blast
  from h1 h2 h3 h4 h5 c1 c2 show ?thesis by blast
qed

section \<open>Meeting times from the normalizer\<close>

text \<open>
  The normalizer does not compare the two times of a row: Days "M" with Times
  "10:00 AM - 9:00 AM", two 12-hour clock times, gives a Monday meeting that starts at
  600 and ends at 540.
\<close>

theorem normalizer_keeps_reversed_times:
  "clock_times (strip (row_Times c5_row)) \<and>
   map_option (\<lambda>offering. map (\<lambda>m. (day m, start_min m, end_min m)) (meetings offering))
     (normalize_csv_row c5_row) = Some [(MONDAY, 600, 540)]"
  by code_simp

lemma digit_value_nonneg:
  assumes "is_digit c"
  shows "0 \<le> int (of_char c) - 48"
  using assms unfolding is_digit_def by (simp add: Let_def)

lemma foldl_digits_nonneg:
  assumes "list_all is_digit s" "0 \<le> a"
  shows "0 \<le> foldl (\<lambda>a c. 10 * a + (int (of_char c) - 48)) a s"
  using assms
proof (induction s arbitrary: a)
  case Nil
  then show ?case by simp
next
  case (Cons c s)
  from Cons.prems have "is_digit c" by simp
  then have "0 \<le> int (of_char c) - 48" by (rule digit_value_nonneg)
  with Cons.prems have "0 \<le> 10 * a + (int (of_char c) - 48)" by simp
  with Cons show ?case by simp
qed

lemma int_of_digits_nonneg:
  assumes "list_all is_digit s"
  shows "0 \<le> int_of_digits s"
  unfolding int_of_digits_def using assms by (rule foldl_digits_nonneg) simp

lemma takeWhile_digits: "list_all is_digit (takeWhile is_digit s)"
  by (induction s) simp_all

lemma takeWhile_full:
  assumes "length (takeWhile P s) = length s"
  shows "list_all P s"
  using assms
proof (induction s)
  case Nil
  then show ?case by simp
next
  case (Cons c s)
  then show ?case by (cases "P c") simp_all
qed

lemma match_time_digits:
  assumes "match_time s = Some (g1, g2, g3)"
  shows "list_all is_digit g1 \<and> list_all is_digit g2"
proof -
  from assms obtain r2 where
    g1: "g1 = takeWhile is_digit (take 2 s)" and
    g2: "g2 = take 2 r2" and
    len: "length (takeWhile is_digit (take 2 r2)) = 2"
    unfolding match_time_def
    by (auto simp: Let_def split: if_splits list.splits)
  from len have "length (take 2 r2) = 2"
    by (metis length_takeWhile_le le_antisym length_take min.cobounded2)
  with len have "list_all is_digit (take 2 r2)" by (simp add: takeWhile_full)
  with g1 g2 show ?thesis by (simp add: takeWhile_digits)
qed

lemma parse_time_nonneg:
  assumes "parse_time s = Some t"
  shows "0 \<le> t"
proof -
  from assms obtain g1 g2 g3 where
    m: "match_time (strip s) = Some (g1, g2, g3)" and
    t: "t = (if upper g3 = ''PM'' \<and> int_of_digits g1 \<noteq> 12 then int_of_digits g1 + 12
             else if upper g3 = ''AM'' \<and> int_of_digits g1 = 12 then 0
             else int_of_digits g1) * 60 + int_of_digits g2"
    unfolding parse_time_def
    by (auto simp: Let_def split: if_splits option.splits)
  from match_time_digits [OF m] have "0 \<le> int_of_digits g1" "0 \<le> int_of_digits g2"
    by (simp_all add: int_of_digits_nonneg)
  with t show ?thesis by simp
qed

lemma parse_times_nonneg:
  assumes "parse_times s = (Some a, Some b)"
  shows "0 \<le> a \<and> 0 \<le> b"
proof -
  from assms obtain p0 p1 where "parse_time p0 = Some a" "parse_time p1 = Some b"
    unfolding parse_times_def
    by (auto split: if_splits list.splits)
  then show ?thesis by (simp add: parse_time_nonneg)
qed

lemma build_meetings_times:
  assumes "m \<in> set (build_meetings row)"
  shows "parse_times (strip (row_Times row)) = (Some (start_min m), Some (end_min m))"
  using assms unfolding build_meetings_def
  by (auto simp: Let_def split: prod.splits option.splits)

lemma normalize_csv_row_meetings:
  assumes "normalize_csv_row row = Some offering"
  shows "meetings offering = build_meetings row"
  using assms unfolding normalize_csv_row_def
  by (auto simp: Let_def split: if_splits option.splits)

text \<open>
  Outside the clock times \<open>parse_time\<close> leaves the range 0-1439 that its docstring
  gives: the pattern accepts any one or two digits as the hour.
\<close>

lemma parse_time_beyond_one_day: "parse_time ''13:00 PM'' = Some 1500"
  by code_simp

lemma parse_time_clock_bound:
  assumes "parse_time s = Some t" and "clock_time s"
  shows "t \<le> 1439"
proof -
  from assms(1) obtain g1 g2 g3 where
    m: "match_time (strip s) = Some (g1, g2, g3)" and
    t: "t = (if upper g3 = ''PM'' \<and> int_of_digits g1 \<noteq> 12 then int_of_digits g1 + 12
             else if upper g3 = ''AM'' \<and> int_of_digits g1 = 12 then 0
             else int_of_digits g1) * 60 + int_of_digits g2"
    unfolding parse_time_def
    by (auto simp: Let_def split: if_splits option.splits)
  from assms(2) m have h: "int_of_digits g1 \<le> 12" and mi: "int_of_digits g2 \<le> 59"
    unfolding clock_time_def by (simp_all split: if_splits)
  from match_time_digits [OF m] have "0 \<le> int_of_digits g1"
    by (simp add: int_of_digits_nonneg)
  with t h mi show ?thesis by (auto split: if_splits)
qed

lemma parse_times_clock_bound:
  assumes "parse_times s = (Some a, Some b)" and "clock_times s"
  shows "a \<le> 1439 \<and> b \<le> 1439"
proof -
  from assms(1) obtain p0 p1 where sp: "split_range [] (strip s) = [p0, p1]"
    and a: "parse_time p0 = Some a" and b: "parse_time p1 = Some b"
    unfolding parse_times_def
    by (auto split: if_splits list.splits)
  from assms(2) sp have "clock_time p0" and "clock_time p1"
    unfolding clock_times_def by (simp_all split: if_splits)
  with a b show ?thesis by (simp add: parse_time_clock_bound)
qed

text \<open>
  Claim C5, as the code has it. Every meeting that \<open>normalize_csv_row\<close> produces from a
  row has 0 <= start_min and 0 <= end_min; when the two times of the row are 12-hour clock
  times (hour at most 12, minute at most 59), also start_min < 1440 and end_min < 1440,
  so both lie within one day. The order start_min < end_min is not part of it: the
  normalizer does not compare the two times.
\<close>

theorem normalizer_meeting_times:
  assumes "normalize_csv_row row = Some offering" and "m \<in> set (meetings offering)"
  shows "0 \<le> start_min m \<and> 0 \<le> end_min m \<and>
         (clock_times (strip (row_Times row)) \<longrightarrow> start_min m < 1440 \<and> end_min m < 1440)"
proof -
  from assms have "m \<in> set (build_meetings row)" by (simp add: normalize_csv_row_meetings)
  then have p: "parse_times (strip (row_Times row)) = (Some (start_min m), Some (end_min m))"
    by (rule build_meetings_times)
  have "clock_times (strip (row_Times row)) \<longrightarrow> start_min m < 1440 \<and> end_min m < 1440"
  proof
    assume "clock_times (strip (row_Times row))"
    with p have "start_min m \<le> 1439 \<and> end_min m \<le> 1439" by (rule parse_times_clock_bound)
    then show "start_min m < 1440 \<and> end_min m < 1440" by simp
  qed
  with parse_times_nonneg [OF p] show ?thesis by simp
qed

theorem normalizer_meeting_times_witness:
  "normalize_csv_row basic_row = Some basic_offering \<and>
   \<lparr>day = MONDAY, start_min = 690, end_min = 770, location = Some ''CKB 217''\<rparr>
     \<in> set (meetings basic_offering) \<and>
   clock_times (strip (row_Times basic_row)) \<and>
   (0::int) \<le> 690 \<and> (690::int) < 1440 \<and> (0::int) \<le> 770 \<and> (770::int) < 1440"
proof -
  have h1: "normalize_csv_row basic_row = Some basic_offering" by code_simp
  have h2: "\<lparr>day = MONDAY, start_min = 690, end_min = 770, location = Some ''CKB 217''\<rparr>
     \<in> set (meetings basic_offering)" by (simp add: basic_offering_def)
  have h3: "clock_times (strip (row_Times basic_row))" by code_simp
  from normalizer_meeting_times [OF h1 h2] h1 h2 h3 show ?thesis by simp
qed

section \<open>Scenario F: rows that share a CRN\<close>

lemma parse_days_T: "parse_days (strip ''T'') = [TUESDAY]"
  by code_simp

lemma parse_days_R: "parse_days (strip ''R'') = [THURSDAY]"
  by code_simp

lemma parse_times_scenario_f: "parse_times (strip ''9:00 AM - 9:50 AM'') = (Some 540, Some 590)"
  by code_simp

lemma build_meetings_T:
  assumes "row_Days row = ''T''" "row_Times row = ''9:00 AM - 9:50 AM''"
  shows "build_meetings row =
         [\<lparr>day = TUESDAY, start_min = 540, end_min = 590,
           location = str_or_none (strip (row_Location row))\<rparr>]"
  unfolding build_meetings_def using assms
  by (simp add: parse_days_T parse_times_scenario_f)

lemma build_meetings_R:
  assumes "row_Days row = ''R''" "row_Times row = ''9:00 AM - 9:50 AM''"
  shows "build_meetings row =
         [\<lparr>day = THURSDAY, start_min = 540, end_min = 590,
           location = str_or_none (strip (row_Location row))\<rparr>]"
  unfolding build_meetings_def using assms
  by (simp add: parse_days_R parse_times_scenario_f)

lemma normalize_csv_row_crn:
  assumes "normalize_csv_row row = Some offering"
  shows "crn offering = strip (row_CRN row)"
  using assms unfolding normalize_csv_row_def
  by (auto simp: Let_def split: if_splits option.splits)

lemma merge_two_same_crn:
  assumes "crn o2 = crn o1"
  shows "merge_offerings_by_crn [o1, o2] =
         [o1\<lparr>meetings := add_meetings (meetings o1) (meetings o2)\<rparr>]"
  using assms by (simp add: merge_offerings_by_crn_def)

lemma deduplicate_single: "deduplicate_offerings [x] = [x]"
  by (simp add: deduplicate_offerings_def)

text \<open>
  Claim C8. Two rows that share a CRN, one with Days "T" and Times
  "9:00 AM - 9:50 AM", the other with Days "R" and the same Times, normalize to exactly
  one offering: the first row's offering with the meetings (Tue, 540, 590) and
  (Thu, 540, 590), each with the location of its own row. The rows are rows that
  \<open>normalize_csv_row\<close> accepts.
\<close>

theorem scenario_f_crn_merge:
  assumes "normalize_csv_row r1 = Some o1" and "normalize_csv_row r2 = Some o2"
    and "strip (row_CRN r1) = strip (row_CRN r2)"
    and "row_Days r1 = ''T''" and "row_Times r1 = ''9:00 AM - 9:50 AM''"
    and "row_Days r2 = ''R''" and "row_Times r2 = ''9:00 AM - 9:50 AM''"
  shows "normalize_multiple_csvs [[r1, r2]] =
           [o1\<lparr>meetings :=
                 [\<lparr>day = TUESDAY, start_min = 540, end_min = 590,
                   location = str_or_none (strip (row_Location r1))\<rparr>,
                  \<lparr>day = THURSDAY, start_min = 540, end_min = 590,
                   location = str_or_none (strip (row_Location r2))\<rparr>]\<rparr>]"
proof -
  have n: "normalize_csv [r1, r2] = [o1, o2]"
    using assms(1,2) by (simp add: normalize_csv_def List.map_filter_simps)
  have c: "crn o2 = crn o1"
    using assms(1,2,3) by (simp add: normalize_csv_row_crn)
  have m1: "meetings o1 = [\<lparr>day = TUESDAY, start_min = 540, end_min = 590,
                   location = str_or_none (strip (row_Location r1))\<rparr>]"
    using assms(1,4,5) by (simp add: normalize_csv_row_meetings build_meetings_T)
  have m2: "meetings o2 = [\<lparr>day = THURSDAY, start_min = 540, end_min = 590,
                   location = str_or_none (strip (row_Location r2))\<rparr>]"
    using assms(2,6,7) by (simp add: normalize_csv_row_meetings build_meetings_R)
  have a: "add_meetings (meetings o1) (meetings o2) =
       [\<lparr>day = TUESDAY, start_min = 540, end_min = 590,
         location = str_or_none (strip (row_Location r1))\<rparr>,
        \<lparr>day = THURSDAY, start_min = 540, end_min = 590,
         location = str_or_none (strip (row_Location r2))\<rparr>]"
    by (simp add: m1 m2)
  show ?thesis
    unfolding normalize_multiple_csvs_def
    by (simp add: n merge_two_same_crn [OF c] deduplicate_single a)
qed

theorem scenario_f_crn_merge_witness:
  "normalize_csv_row scenario_f_first = Some (basic_offering\<lparr>meetings := [scenario_f_tuesday]\<rparr>) \<and>
   normalize_csv_row scenario_f_second =
     Some (basic_offering\<lparr>title := ''SECOND ROW'', meetings := [scenario_f_thursday]\<rparr>) \<and>
   normalize_multiple_csvs [[scenario_f_first, scenario_f_second]] =
     [basic_offering\<lparr>meetings := [scenario_f_tuesday, scenario_f_thursday]\<rparr>]"
proof -
  have h1: "normalize_csv_row scenario_f_first =
            Some (basic_offering\<lparr>meetings := [scenario_f_tuesday]\<rparr>)"
    by code_simp
  have h2: "normalize_csv_row scenario_f_second =
            Some (basic_offering\<lparr>title := ''SECOND ROW'', meetings := [scenario_f_thursday]\<rparr>)"
    by code_simp
  have h3: "strip (row_CRN scenario_f_first) = strip (row_CRN scenario_f_second)"
    by code_simp
  have h4: "row_Days scenario_f_first = ''T''"
    and h5: "row_Times scenario_f_first = ''9:00 AM - 9:50 AM''"
    by (simp_all add: scenario_f_first_def example_row_def)
  have h6: "row_Days scenario_f_second = ''R''"
    and h7: "row_Times scenario_f_second = ''9:00 AM - 9:50 AM''"
    by (simp_all add: scenario_f_second_def example_row_def)
  have l1: "str_or_none (strip (row_Location scenario_f_first)) = Some ''CKB 217''"
    by code_simp
  have l2: "str_or_none (strip (row_Location scenario_f_second)) = Some ''GITC 1100''"
    by code_simp
  from scenario_f_crn_merge [OF h1 h2 h3 h4 h5 h6 h7]
  have "normalize_multiple_csvs [[scenario_f_first, scenario_f_second]] =
     [basic_offering\<lparr>meetings := [scenario_f_tuesday, scenario_f_thursday]\<rparr>]"
    by (simp add: l1 l2 scenario_f_tuesday_def scenario_f_thursday_def)
  with h1 h2 show ?thesis by simp
qed

section \<open>Merging a catalog with itself\<close>

lemma merge_loop_append:
  "merge_loop m (xs @ ys) = merge_loop (merge_loop m xs) ys"
  by (induction xs arbitrary: m) (simp_all split: option.splits)

lemma merge_update_fst:
  "map fst (map (\<lambda>(k, v). if k = c then (k, f v) else (k, v)) m) = map fst m"
  by (induction m) auto

lemma merge_update_crn:
  assumes "map (\<lambda>p. crn (snd p)) m = map fst m"
  shows "map (\<lambda>p. crn (snd p))
           (map (\<lambda>(k, v). if k = c then (k, v\<lparr>meetings := g v\<rparr>) else (k, v)) m) = map fst m"
  using assms by (induction m) auto

lemma merge_loop_keys:
  assumes "map (\<lambda>p. crn (snd p)) m = map fst m" and "distinct (map fst m)"
  shows "map (\<lambda>p. crn (snd p)) (merge_loop m xs) = map fst (merge_loop m xs) \<and>
         distinct (map fst (merge_loop m xs))"
  using assms
proof (induction xs arbitrary: m)
  case Nil
  then show ?case by simp
next
  case (Cons x xs)
  show ?case
  proof (cases "map_of m (crn x)")
    case None
    then have "crn x \<notin> set (map fst m)" by (simp add: map_of_eq_None_iff)
    with Cons.prems have
      "map (\<lambda>p. crn (snd p)) (m @ [(crn x, x)]) = map fst (m @ [(crn x, x)])"
      "distinct (map fst (m @ [(crn x, x)]))"
      by simp_all
    from Cons.IH [OF this] None show ?thesis by simp
  next
    case (Some existing)
    let ?m = "map (\<lambda>(k, v). if k = crn x
                 then (k, v\<lparr>meetings := add_meetings (meetings v) (meetings x)\<rparr>)
                 else (k, v)) m"
    have f: "map fst ?m = map fst m" by (rule merge_update_fst)
    have "map (\<lambda>p. crn (snd p)) ?m = map fst m"
      using Cons.prems(1) by (rule merge_update_crn)
    with f have "map (\<lambda>p. crn (snd p)) ?m = map fst ?m" by simp
    moreover from Cons.prems(2) have "distinct (map fst ?m)" by (simp only: f)
    ultimately have "map (\<lambda>p. crn (snd p)) (merge_loop ?m xs) = map fst (merge_loop ?m xs) \<and>
         distinct (map fst (merge_loop ?m xs))" by (rule Cons.IH)
    with Some show ?thesis by simp
  qed
qed

lemma merge_distinct_crn: "distinct (map crn (merge_offerings_by_crn xs))"
proof -
  have "map (\<lambda>p. crn (snd p)) (merge_loop [] xs) = map fst (merge_loop [] xs) \<and>
        distinct (map fst (merge_loop [] xs))"
    by (rule merge_loop_keys) simp_all
  then have e: "map (\<lambda>p. crn (snd p)) (merge_loop [] xs) = map fst (merge_loop [] xs)"
    and d: "distinct (map fst (merge_loop [] xs))" by blast+
  have a: "map crn (map snd (merge_loop [] xs)) = map (\<lambda>p. crn (snd p)) (merge_loop [] xs)"
    by (simp add: comp_def)
  from d show ?thesis unfolding merge_offerings_by_crn_def by (simp only: a e)
qed

lemma dedup_loop_distinct:
  assumes "distinct (map crn xs)" and "crn ` set xs \<inter> fst ` seen = {}"
  shows "dedup_loop seen unique xs = unique @ xs"
  using assms
proof (induction xs arbitrary: seen unique)
  case Nil
  then show ?case by simp
next
  case (Cons x xs)
  let ?sig = "(crn x, meeting_sig x)"
  from Cons.prems(2) have n: "?sig \<notin> seen" by force
  from Cons.prems have d: "distinct (map crn xs)"
    and "crn ` set xs \<inter> fst ` insert ?sig seen = {}" by auto
  then have "dedup_loop (insert ?sig seen) (unique @ [x]) xs = (unique @ [x]) @ xs"
    by (rule Cons.IH)
  with n show ?case by (simp add: Let_def)
qed

lemma deduplicate_distinct:
  assumes "distinct (map crn xs)"
  shows "deduplicate_offerings xs = xs"
  unfolding deduplicate_offerings_def using dedup_loop_distinct [OF assms, of "{}" "[]"] by simp

lemma merge_loop_fresh:
  assumes "distinct (map crn xs)" and "crn ` set xs \<inter> fst ` set m = {}"
  shows "merge_loop m xs = m @ map (\<lambda>x. (crn x, x)) xs"
  using assms
proof (induction xs arbitrary: m)
  case Nil
  then show ?case by simp
next
  case (Cons x xs)
  from Cons.prems(2) have "crn x \<notin> fst ` set m" by auto
  then have none: "map_of m (crn x) = None" by (simp add: map_of_eq_None_iff)
  from Cons.prems have "distinct (map crn xs)"
    and "crn ` set xs \<inter> fst ` set (m @ [(crn x, x)]) = {}" by auto
  then have "merge_loop (m @ [(crn x, x)]) xs = (m @ [(crn x, x)]) @ map (\<lambda>x. (crn x, x)) xs"
    by (rule Cons.IH)
  with none show ?case by simp
qed

lemma add_meetings_present:
  assumes "set ms \<subseteq> set existing"
  shows "add_meetings existing ms = existing"
  using assms
proof (induction ms)
  case Nil
  then show ?case by simp
next
  case (Cons meeting ms)
  then have "meeting \<in> set existing" by simp
  then have "list_ex (\<lambda>m. day m = day meeting \<and> start_min m = start_min meeting
                        \<and> end_min m = end_min meeting) existing"
    unfolding list_ex_iff by blast
  with Cons show ?case by simp
qed

lemma merge_update_same:
  assumes "distinct (map crn c)" and "x \<in> set c"
  shows "map (\<lambda>(k, v). if k = crn x
                then (k, v\<lparr>meetings := add_meetings (meetings v) (meetings x)\<rparr>)
                else (k, v)) (map (\<lambda>x. (crn x, x)) c) = map (\<lambda>x. (crn x, x)) c"
proof -
  have "\<And>y. y \<in> set c \<Longrightarrow> crn y = crn x \<Longrightarrow>
          y\<lparr>meetings := add_meetings (meetings y) (meetings x)\<rparr> = y"
  proof -
    fix y assume "y \<in> set c" "crn y = crn x"
    with assms have "y = x" by (meson distinct_map inj_onD)
    then show "y\<lparr>meetings := add_meetings (meetings y) (meetings x)\<rparr> = y"
      by (simp add: add_meetings_present)
  qed
  then show ?thesis by (auto simp: map_idI)
qed

lemma merge_loop_again:
  assumes "distinct (map crn c)" and "set ys \<subseteq> set c"
  shows "merge_loop (map (\<lambda>x. (crn x, x)) c) ys = map (\<lambda>x. (crn x, x)) c"
  using assms(2)
proof (induction ys)
  case Nil
  then show ?case by simp
next
  case (Cons y ys)
  let ?m = "map (\<lambda>x. (crn x, x)) c"
  let ?upd = "\<lambda>(k, v). if k = crn y
                then (k, v\<lparr>meetings := add_meetings (meetings v) (meetings y)\<rparr>)
                else (k, v)"
  from Cons.prems have y: "y \<in> set c" by simp
  with assms(1) have s: "map_of ?m (crn y) = Some y"
    by (intro map_of_is_SomeI) (auto simp: comp_def)
  have u: "map ?upd ?m = ?m" by (rule merge_update_same [OF assms(1) y])
  have "merge_loop ?m (y # ys) = merge_loop (map ?upd ?m) ys"
    by (simp only: merge_loop.simps s option.simps)
  also have "\<dots> = merge_loop ?m ys" by (simp only: u)
  also from Cons have "\<dots> = ?m" by simp
  finally show ?case .
qed

lemma merge_twice:
  assumes "distinct (map crn c)"
  shows "merge_offerings_by_crn (c @ c) = c"
proof -
  have "merge_loop [] c = map (\<lambda>x. (crn x, x)) c"
    using merge_loop_fresh [OF assms, of "[]"] by simp
  then have "merge_loop [] (c @ c) = map (\<lambda>x. (crn x, x)) c"
    by (simp add: merge_loop_append merge_loop_again [OF assms])
  then show ?thesis by (simp add: merge_offerings_by_crn_def comp_def)
qed

text \<open>
  Claim C9. Catalog merging is idempotent: for every normalized catalog C, that is the
  result of CRN-merge followed by meeting-signature deduplication on any list of
  offerings, CRN-merge followed by deduplication of C concatenated with itself gives
  C again. The CRNs of a merged catalog are distinct; on the second copy every meeting
  is found in the offering already stored under its CRN, and nothing is appended.
\<close>

theorem catalog_merge_idempotent:
  "deduplicate_offerings
     (merge_offerings_by_crn
        (deduplicate_offerings (merge_offerings_by_crn xs) @
         deduplicate_offerings (merge_offerings_by_crn xs))) =
   deduplicate_offerings (merge_offerings_by_crn xs)"
proof -
  let ?c = "merge_offerings_by_crn xs"
  have d: "distinct (map crn ?c)" by (rule merge_distinct_crn)
  then have c: "deduplicate_offerings ?c = ?c" by (rule deduplicate_distinct)
  from d have "merge_offerings_by_crn (?c @ ?c) = ?c" by (rule merge_twice)
  with c show ?thesis by simp
qed

section \<open>No overlap in returned schedules\<close>

lemma conflict_free_snoc:
  "conflict_free (cur @ [x]) = (conflict_free cur \<and> \<not> has_conflict x cur)"
  unfolding conflict_free_def list_all_iff
  by (auto simp: nth_append less_Suc_eq)

lemma conflict_free_Nil: "conflict_free []"
  by (simp add: conflict_free_def)

lemma fold_invariant:
  assumes "Q s" and "\<And>x s. x \<in> set xs \<Longrightarrow> Q s \<Longrightarrow> Q (f x s)"
  shows "Q (fold f xs s)"
  using assms by (induction xs arbitrary: s) simp_all

lemma leaf_conflict_free:
  assumes "conflict_free cur" and "list_all (\<lambda>S. conflict_free (offerings S)) (results self)"
  shows "list_all (\<lambda>S. conflict_free (offerings S)) (results (leaf py_hash self cur))"
  using assms unfolding leaf_def by (simp add: Let_def)

lemma backtrack_conflict_free:
  assumes "conflict_free cur" and "list_all (\<lambda>S. conflict_free (offerings S)) (results self)"
  shows "list_all (\<lambda>S. conflict_free (offerings S))
           (results (backtrack py_hash self course_keys course_idx cur))"
  using assms
proof (induction py_hash self course_keys course_idx cur rule: backtrack.induct)
  case (1 py_hash self course_keys course_idx current_schedule)
  show ?case
  proof (cases "course_idx \<ge> length course_keys")
    case True
    with "1.prems" show ?thesis by (simp add: leaf_conflict_free)
  next
    case False
    let ?step = "\<lambda>offering s.
                   if has_conflict offering current_schedule then s
                   else if conflicts_with_availability s offering then s
                   else backtrack py_hash s course_keys (course_idx + 1)
                          (current_schedule @ [offering])"
    have "list_all (\<lambda>S. conflict_free (offerings S))
            (results (fold ?step (offerings_by_course self (course_keys ! course_idx)) self))"
    proof (rule fold_invariant [where Q = "\<lambda>s :: ScheduleSolver. list_all (\<lambda>S. conflict_free (offerings S)) (results s)"])
      show "list_all (\<lambda>S. conflict_free (offerings S)) (results self)" by (rule "1.prems"(2))
    next
      fix x and s :: ScheduleSolver
      assume x: "x \<in> set (offerings_by_course self (course_keys ! course_idx))"
        and s: "list_all (\<lambda>S. conflict_free (offerings S)) (results s)"
      show "list_all (\<lambda>S. conflict_free (offerings S)) (results (?step x s))"
      proof (cases "has_conflict x current_schedule \<or> conflicts_with_availability s x")
        case True
        with s show ?thesis by auto
      next
        case False
        then have nc: "\<not> has_conflict x current_schedule"
          and na: "\<not> conflicts_with_availability s x" by simp_all
        from "1.prems"(1) nc have "conflict_free (current_schedule @ [x])"
          by (simp add: conflict_free_snoc)
        with "1.IH" [OF \<open>\<not> length course_keys \<le> course_idx\<close> x nc na] s
        have "list_all (\<lambda>S. conflict_free (offerings S))
                (results (backtrack py_hash s course_keys (course_idx + 1) (current_schedule @ [x])))"
          by simp
        with nc na show ?thesis by simp
      qed
    qed
    with False show ?thesis by simp
  qed
qed

lemma solve_conflict_free:
  assumes "S \<in> set (solve_schedules py_hash catalog_in request_in)"
  shows "conflict_free (offerings S)"
proof -
  let ?self = "init_solver catalog_in request_in"
  let ?keys = "sort_key (\<lambda>ck. length (offerings_by_course ?self ck))
                 (required_course_keys (request ?self))"
  let ?self1 = "backtrack py_hash ?self ?keys 0 []"
  have r: "results ?self = []" by (simp add: init_solver_def)
  have "list_all (\<lambda>S. conflict_free (offerings S)) (results ?self1)"
    by (rule backtrack_conflict_free) (simp_all add: conflict_free_Nil r)
  moreover from assms have "S \<in> set (results ?self1)"
    unfolding solve_schedules_def solve_def
    by (auto simp: Let_def split: if_splits dest: in_set_takeD)
  ultimately show ?thesis by (simp add: list_all_iff)
qed

lemma conflict_free_pair:
  assumes "conflict_free schedule" and "i < j" and "j < length schedule"
  shows "\<not> overlaps_with (schedule ! j) (schedule ! i)"
proof -
  from assms have "\<not> has_conflict (schedule ! j) (take j schedule)"
    unfolding conflict_free_def list_all_iff by simp
  moreover from assms have "schedule ! i \<in> set (take j schedule)"
    by (metis in_set_conv_nth length_take min.absorb2 less_imp_le nth_take)
  ultimately show ?thesis unfolding has_conflict_def list_ex_iff by blast
qed

lemma not_overlaps_with:
  assumes "\<not> overlaps_with a b" and "m1 \<in> set (meetings a)" and "m2 \<in> set (meetings b)"
  shows "\<not> overlaps m1 m2"
  using assms unfolding overlaps_with_def list_ex_iff by blast

lemma not_overlaps_disjoint:
  assumes "\<not> overlaps m1 m2"
  shows "day m1 \<noteq> day m2 \<or> end_min m1 \<le> start_min m2 \<or> start_min m1 \<ge> end_min m2"
  using assms unfolding overlaps_def by (auto split: if_splits)

text \<open>
  Claim C1. For every schedule returned by \<open>solve_schedules\<close>, for every two offerings
  at distinct positions of the schedule and every pair of meetings, one from each, the
  meetings do not overlap: they are on different days, or one ends at or before the
  start of the other.
\<close>

theorem returned_schedules_do_not_overlap:
  assumes "S \<in> set (solve_schedules py_hash catalog_in request_in)"
    and "i < length (offerings S)" and "j < length (offerings S)" and "i \<noteq> j"
    and "m1 \<in> set (meetings (offerings S ! i))"
    and "m2 \<in> set (meetings (offerings S ! j))"
  shows "day m1 \<noteq> day m2 \<or> end_min m1 \<le> start_min m2 \<or> start_min m1 \<ge> end_min m2"
proof -
  from assms(1) have cf: "conflict_free (offerings S)" by (rule solve_conflict_free)
  have "\<not> overlaps m1 m2"
  proof (cases "i < j")
    case True
    with cf assms(3) have "\<not> overlaps_with (offerings S ! j) (offerings S ! i)"
      by (simp add: conflict_free_pair)
    with assms(5,6) have "\<not> overlaps m2 m1" by (simp add: not_overlaps_with)
    then show ?thesis unfolding overlaps_def by auto
  next
    case False
    with assms(4) have "j < i" by simp
    with cf assms(2) have "\<not> overlaps_with (offerings S ! i) (offerings S ! j)"
      by (simp add: conflict_free_pair)
    with assms(5,6) show ?thesis by (simp add: not_overlaps_with)
  qed
  then show ?thesis by (rule not_overlaps_disjoint)
qed

theorem returned_schedules_do_not_overlap_witness:
  "c1_schedule \<in> set (solve_schedules hash_one c1_catalog (example_request [''CS 100'', ''MATH 111''])) \<and>
   (0::nat) < length (offerings c1_schedule) \<and>
   (1::nat) < length (offerings c1_schedule) \<and>
   example_meeting MONDAY 600 680 \<in> set (meetings (offerings c1_schedule ! 0)) \<and>
   example_meeting MONDAY 540 590 \<in> set (meetings (offerings c1_schedule ! 1)) \<and>
   (end_min (example_meeting MONDAY 600 680) \<le> start_min (example_meeting MONDAY 540 590) \<or>
    start_min (example_meeting MONDAY 600 680) \<ge> end_min (example_meeting MONDAY 540 590) \<or>
    day (example_meeting MONDAY 600 680) \<noteq> day (example_meeting MONDAY 540 590))"
proof -
  have e: "solve_schedules hash_one c1_catalog (example_request [''CS 100'', ''MATH 111'']) = [c1_schedule]"
    by code_simp
  then have h1: "c1_schedule \<in> set (solve_schedules hash_one c1_catalog (example_request [''CS 100'', ''MATH 111'']))"
    by simp
  have h2: "(0::nat) < length (offerings c1_schedule)"
    and h3: "(1::nat) < length (offerings c1_schedule)"
    by (simp_all add: c1_schedule_def c1_catalog_def)
  have h4: "(0::nat) \<noteq> 1" by simp
  have h5: "example_meeting MONDAY 600 680 \<in> set (meetings (offerings c1_schedule ! 0))"
    and h6: "example_meeting MONDAY 540 590 \<in> set (meetings (offerings c1_schedule ! 1))"
    by (simp_all add: c1_schedule_def c1_catalog_def example_offering_def)
  from returned_schedules_do_not_overlap [OF h1 h2 h3 h4 h5 h6] h1 h2 h3 h5 h6
  show ?thesis by blast
qed

end
